theory Spec2Isabelle
  imports Main
begin

section \<open>The supervisor script \<open>agentframework_supervisor.py\<close>\<close>

text \<open>
  The script wires external libraries together: an OpenAI-compatible chat client, a
  client for MCP tool servers and a chat-agent class. Its own code is the selection of the
  provider profile from the environment, the discovery of the Jira tools, the cached Jira
  agent, the supervisor and \<open>main\<close>. The libraries and the standard output are not part
  of the repository: what they answer is a parameter of the model (the \<open>world\<close> below).
  The calls of the script on the tool server, the agents and the standard output are
  recorded in a trace.
\<close>

subsection \<open>Exceptions and outcomes\<close>

text \<open>
  The script itself can raise \<open>KeyError\<close> (\<open>os.environ["GITHUB_TOKEN"]\<close>) and \<open>TypeError\<close>
  (\<open>None + "/openai/v1/"\<close>); \<open>print\<close> raises \<open>UnicodeEncodeError\<close> when the standard
  output cannot encode a character. The other constructors are the error kinds of the
  specification; in this program they can only come out of a library call.
\<close>

datatype error =
    KeyError string
  | TypeError
  | UnicodeEncodeError
  | ConfigurationError
  | ConnectionError
  | BackendError
  | InvocationError
  | UnknownCapabilityError
  | StepBudgetExceededError
  | OtherError string

text \<open>An awaited call returns a value, raises, or never returns.\<close>

datatype 'a outcome = Returns 'a | Raises error | NeverReturns

subsection \<open>The environment and the arguments of the chat client\<close>

type_synonym environ = "string \<rightharpoonup> string"

text \<open>
  \<open>load_dotenv(override=True)\<close>: every variable of the \<open>.env\<close> file is written into
  \<open>os.environ\<close>, over a value that is already there.
\<close>

definition load_dotenv :: "environ \<Rightarrow> environ \<Rightarrow> environ" where
  "load_dotenv dotenv os_environ = os_environ ++ dotenv"

text \<open>\<open>os.getenv(key, default)\<close> and \<open>os.environ.get(key, default)\<close>.\<close>

definition getenv :: "environ \<Rightarrow> string \<Rightarrow> string \<Rightarrow> string" where
  "getenv e k d = (case e k of Some v \<Rightarrow> v | None \<Rightarrow> d)"

text \<open>
  The arguments \<open>OpenAIChatClient\<close> is constructed with. An argument that is not passed, or
  is passed as \<open>None\<close>, is \<open>None\<close>. The Azure profile passes a bearer-token provider for a
  scope in place of a key.
\<close>

datatype api_key = ApiKey "string option" | BearerTokenProvider string

record openai_chat_client =
  base_url :: "string option"
  api_key :: api_key
  model_id :: "string option"

subsection \<open>Tools, agents and capabilities\<close>

text \<open>A discovered tool: its name and its parameter schema.\<close>

record tool =
  tool_name :: string
  tool_schema :: string

text \<open>One entry of the dictionary given to \<open>MultiServerMCPClient\<close>.\<close>

record server_config =
  command :: string
  args :: "string list"
  env :: "(string \<times> string) list"
  transport :: string

type_synonym mcp_config = "(string \<times> server_config) list"

text \<open>The configuration is a literal of the source (lines 52 to 69).\<close>

definition mcp_config :: mcp_config where
  "mcp_config =
     [(''mcp-atlassian'',
       \<lparr>command = ''docker'',
        args = [''run'', ''-i'', ''--rm'',
                ''-e'', ''JIRA_URL'',
                ''-e'', ''JIRA_USERNAME'',
                ''-e'', ''JIRA_API_TOKEN'',
                ''ghcr.io/sooperset/mcp-atlassian:latest''],
        env = [(''JIRA_URL'', ''''),
               (''JIRA_USERNAME'', ''XXXXXX''),
               (''JIRA_API_TOKEN'', ''XXXXX'')],
        transport = ''stdio''\<rparr>)]"

text \<open>
  An object has an identity: the number it got when it was constructed. Two clients built
  from the same configuration are two objects.
\<close>

record mcp_client =
  client_id :: nat
  connections :: mcp_config

text \<open>\<open>ChatAgent(chat_client=, instructions=, name=, tools=, agents=)\<close>.\<close>

datatype agent =
  ChatAgent (agent_id: nat) (chat_client: openai_chat_client) (instructions: string)
    (name: string) (tools: "tool list") (agents: "agent list")

text \<open>
  What an agent can invoke: the tools it was given, and the agents it was given to
  delegate to.
\<close>

datatype capability = ToolCapability tool | AgentCapability agent

definition capabilities :: "agent \<Rightarrow> capability list" where
  "capabilities a = map ToolCapability (tools a) @ map AgentCapability (agents a)"

fun is_AgentCapability :: "capability \<Rightarrow> bool" where
  "is_AgentCapability (AgentCapability a) = True"
| "is_AgentCapability (ToolCapability t) = False"

subsection \<open>The libraries and the trace\<close>

text \<open>
  What the process meets outside the script is the world.
  \<^item> \<open>chat_client_init w a\<close> is what the constructor \<open>OpenAIChatClient\<close> does with the
    arguments \<open>a\<close>.
  \<^item> \<open>get_bearer_token_provider w scope\<close> is what
    \<open>get_bearer_token_provider(DefaultAzureCredential(), scope)\<close> does.
  \<^item> \<open>mcp_get_tools w k cfg\<close> is what \<open>MultiServerMCPClient(cfg).get_tools()\<close> does the
    \<open>k\<close>-th time the process asks (counting from 0): it starts the tool server, connects
    and lists the tools.
  \<^item> \<open>agent_run w a request\<close> is what \<open>a.run(request)\<close> does, the text of the response
    when it returns. The invocation loop of a run is inside that library call.
  \<^item> \<open>stdout_write w startup str\<close> is what \<open>print(str)\<close> does in a process that was
    started in the environment \<open>startup\<close>: the interpreter fixes the encoding of the
    standard output when it starts, from \<open>PYTHONIOENCODING\<close>, the locale and the terminal.
\<close>

record world =
  chat_client_init :: "openai_chat_client \<Rightarrow> unit outcome"
  get_bearer_token_provider :: "string \<Rightarrow> unit outcome"
  mcp_get_tools :: "nat \<Rightarrow> mcp_config \<Rightarrow> tool list outcome"
  agent_run :: "agent \<Rightarrow> string \<Rightarrow> string outcome"
  stdout_write :: "environ \<Rightarrow> string \<Rightarrow> unit outcome"

text \<open>
  The calls a process can make on the outside, in the order it makes them. \<open>GetTools\<close> is
  the connection attempt of a client, \<open>Close\<close> the release of that client's connection.
\<close>

datatype event =
    GetTools nat mcp_config
  | LogInfo string
  | NewChatAgent agent
  | Print string
  | Run agent string
  | Close nat

fun is_GetTools :: "event \<Rightarrow> bool" where
  "is_GetTools (GetTools c cfg) = True"
| "is_GetTools ev = False"

fun is_NewChatAgent :: "event \<Rightarrow> bool" where
  "is_NewChatAgent (NewChatAgent a) = True"
| "is_NewChatAgent ev = False"

fun is_Close :: "event \<Rightarrow> bool" where
  "is_Close (Close c) = True"
| "is_Close ev = False"

text \<open>
  The state of the process: the module-level variables \<open>client\<close>, \<open>_jira_agent\<close> and
  \<open>_mcp_client\<close>, the number of the next object, the number of discoveries asked so far,
  and the trace.
\<close>

record state =
  client_global :: openai_chat_client
  jira_agent_global :: "agent option"
  mcp_client_global :: "mcp_client option"
  next_id :: nat
  discoveries :: nat
  trace :: "event list"

definition initial_state :: "openai_chat_client \<Rightarrow> state" where
  "initial_state c =
     \<lparr>client_global = c, jira_agent_global = None, mcp_client_global = None,
      next_id = 0, discoveries = 0, trace = []\<rparr>"

definition emit :: "event \<Rightarrow> state \<Rightarrow> state" where
  "emit ev s = s\<lparr>trace := trace s @ [ev]\<rparr>"

subsection \<open>The chat client (lines 21 to 42)\<close>

text \<open>
  The constructor call \<open>OpenAIChatClient(...)\<close>: the library decides whether it returns;
  the client it returns is the one built from these arguments.
\<close>

definition OpenAIChatClient :: "world \<Rightarrow> openai_chat_client \<Rightarrow> openai_chat_client outcome" where
  "OpenAIChatClient w a =
     (case chat_client_init w a of
        Returns u \<Rightarrow> Returns a
      | Raises err \<Rightarrow> Raises err
      | NeverReturns \<Rightarrow> NeverReturns)"

text \<open>
  The value of the module-level \<open>client\<close> for the environment \<open>e\<close> that
  \<open>load_dotenv\<close> has left. Python evaluates the keyword arguments from left to right:
  in the Azure branch \<open>base_url\<close> comes first, so a missing endpoint raises before the
  credential and the token provider are asked for; in the GitHub branch the missing token
  raises before the constructor is called.
\<close>

definition client :: "world \<Rightarrow> environ \<Rightarrow> openai_chat_client outcome" where
  "client w e =
     (let API_HOST = getenv e ''API_HOST'' ''github'' in
      if API_HOST = ''azure'' then
        (case e ''AZURE_OPENAI_ENDPOINT'' of
           None \<Rightarrow> Raises TypeError
         | Some endpoint \<Rightarrow>
             (case get_bearer_token_provider w ''https://cognitiveservices.azure.com/.default'' of
                Returns u \<Rightarrow>
                  OpenAIChatClient w
                    \<lparr>base_url = Some (endpoint @ ''/openai/v1/''),
                     api_key = BearerTokenProvider ''https://cognitiveservices.azure.com/.default'',
                     model_id = e ''AZURE_OPENAI_CHAT_DEPLOYMENT''\<rparr>
              | Raises err \<Rightarrow> Raises err
              | NeverReturns \<Rightarrow> NeverReturns))
      else if API_HOST = ''github'' then
        (case e ''GITHUB_TOKEN'' of
           None \<Rightarrow> Raises (KeyError ''GITHUB_TOKEN'')
         | Some token \<Rightarrow>
             OpenAIChatClient w
               \<lparr>base_url = Some ''https://models.github.ai/inference'',
                api_key = ApiKey (Some token),
                model_id = Some (getenv e ''GITHUB_MODEL'' ''openai/gpt-4o'')\<rparr>)
      else if API_HOST = ''ollama'' then
        OpenAIChatClient w
          \<lparr>base_url = Some (getenv e ''OLLAMA_ENDPOINT'' ''http://localhost:11434/v1''),
           api_key = ApiKey (Some ''none''),
           model_id = Some (getenv e ''OLLAMA_MODEL'' ''llama3.1:latest'')\<rparr>
      else
        OpenAIChatClient w
          \<lparr>base_url = None,
           api_key = ApiKey (e ''OPENAI_API_KEY''),
           model_id = Some (getenv e ''OPENAI_MODEL'' ''gpt-4o'')\<rparr>)"

subsection \<open>Discovery: \<open>create_mcp_client\<close> (lines 48 to 76)\<close>

text \<open>Python's \<open>str\<close> of a natural number, for the f-string of the log message.\<close>

fun str_nat :: "nat \<Rightarrow> string" where
  "str_nat n =
     (if n < 10 then [''0123456789'' ! n]
      else str_nat (n div 10) @ [''0123456789'' ! (n mod 10)])"

declare str_nat.simps [simp del]

definition create_mcp_client :: "world \<Rightarrow> state \<Rightarrow> (tool list \<times> mcp_client) outcome \<times> state" where
  "create_mcp_client w s =
     (let mcp = \<lparr>client_id = next_id s, connections = mcp_config\<rparr>;
          s1 = s\<lparr>next_id := Suc (next_id s)\<rparr>;
          s2 = emit (GetTools (client_id mcp) (connections mcp))
                 (s1\<lparr>discoveries := Suc (discoveries s1)\<rparr>)
      in case mcp_get_tools w (discoveries s) (connections mcp) of
           Returns ts \<Rightarrow>
             (Returns (ts, mcp),
              emit (LogInfo (''Discovered '' @ str_nat (length ts) @ '' MCP Jira tools'')) s2)
         | Raises err \<Rightarrow> (Raises err, s2)
         | NeverReturns \<Rightarrow> (NeverReturns, s2))"

subsection \<open>The Jira agent and its cache (lines 82 to 126)\<close>

definition jira_instructions :: string where
  "jira_instructions =
     ''You're an expert MCP agent that helps users interact with Jira tickets effectively. '' @
     ''You have access to comprehensive Jira operations through MCP tools that were automatically discovered. '' @
     ''Key responsibilities:\<newline>'' @
     ''1. When retrieving ticket information, provide clear, structured summaries\<newline>'' @
     ''3. If a description is missing, ask the user to provide it\<newline>'' @
     ''4. If a description is not in BDD format, explain BDD format and ask for correction\<newline>'' @
     ''5. When searching tickets, use appropriate JQL queries\<newline>'' @
     ''6. Always validate input parameters before making Jira calls\<newline>'' @
     ''7. Use the available MCP tools: jira_get_issue, jira_search etc.\<newline>\<newline>'' @
     ''BDD Format Examples:\<newline>'' @
     ''- Given [initial context]\<newline>'' @
     ''- When [action occurs]\<newline>'' @
     ''- Then [expected outcome]\<newline>\<newline>'' @
     ''Or:\<newline>'' @
     ''- Scenario: [scenario name]\<newline>'' @
     ''- Given [preconditions]\<newline>'' @
     ''- When [action]\<newline>'' @
     ''- Then [expected result]''"

definition create_jira_mcp_agent :: "world \<Rightarrow> state \<Rightarrow> (agent \<times> mcp_client) outcome \<times> state" where
  "create_jira_mcp_agent w s =
     (case create_mcp_client w s of
        (Returns (jira_tools, mcp), s1) \<Rightarrow>
          (let jira_agent = ChatAgent (next_id s1) (client_global s1) jira_instructions
                              ''MCP Jira Agent'' jira_tools [];
               s2 = emit (NewChatAgent jira_agent) (s1\<lparr>next_id := Suc (next_id s1)\<rparr>)
           in (Returns (jira_agent, mcp), s2))
      | (Raises err, s1) \<Rightarrow> (Raises err, s1)
      | (NeverReturns, s1) \<Rightarrow> (NeverReturns, s1))"

text \<open>
  \<open>get_jira_agent\<close>: when \<open>_jira_agent\<close> is \<open>None\<close>, build the agent and assign both
  globals; an exception leaves them as they were. Then return \<open>_jira_agent\<close>.
\<close>

definition get_jira_agent :: "world \<Rightarrow> state \<Rightarrow> agent outcome \<times> state" where
  "get_jira_agent w s =
     (case jira_agent_global s of
        Some a \<Rightarrow> (Returns a, s)
      | None \<Rightarrow>
          (case create_jira_mcp_agent w s of
             (Returns (a, mcp), s1) \<Rightarrow>
               (Returns a, s1\<lparr>jira_agent_global := Some a, mcp_client_global := Some mcp\<rparr>)
           | (Raises err, s1) \<Rightarrow> (Raises err, s1)
           | (NeverReturns, s1) \<Rightarrow> (NeverReturns, s1)))"

text \<open>
  A sequence of \<open>n\<close> calls of the accessor, one after the other, by a caller that catches
  an exception and goes on. A call that never returns is the last one.
\<close>

fun get_jira_agent_calls :: "world \<Rightarrow> nat \<Rightarrow> state \<Rightarrow> agent outcome list \<times> state" where
  "get_jira_agent_calls w 0 s = ([], s)"
| "get_jira_agent_calls w (Suc n) s =
     (case get_jira_agent w s of
        (NeverReturns, s1) \<Rightarrow> ([NeverReturns], s1)
      | (r, s1) \<Rightarrow>
          (case get_jira_agent_calls w n s1 of (rs, s2) \<Rightarrow> (r # rs, s2)))"

subsection \<open>The supervisor and \<open>main\<close> (lines 133 to 169)\<close>

definition supervisor_instructions :: string where
  "supervisor_instructions =
     ''You are a supervisor managing specialist agents including the MCP Jira Agent. '' @
     ''Your job is to analyze user requests and delegate tasks to the appropriate agents. '' @
     ''For Jira-related requests (ticket creation, retrieval, updates, searches), '' @
     ''delegate to the MCP Jira Agent. '' @
     ''Always provide context and clear instructions when delegating tasks. '' @
     ''The Jira agent has full access to all Jira MCP tools automatically.''"

definition create_supervisor_agent :: "world \<Rightarrow> state \<Rightarrow> agent outcome \<times> state" where
  "create_supervisor_agent w s =
     (case get_jira_agent w s of
        (Returns jira_agent, s1) \<Rightarrow>
          (let supervisor = ChatAgent (next_id s1) (client_global s1) supervisor_instructions
                              ''Supervisor Agent'' [] [jira_agent];
               s2 = emit (NewChatAgent supervisor) (s1\<lparr>next_id := Suc (next_id s1)\<rparr>)
           in (Returns supervisor, s2))
      | (Raises err, s1) \<Rightarrow> (Raises err, s1)
      | (NeverReturns, s1) \<Rightarrow> (NeverReturns, s1))"

definition user_ticket_number :: string where
  "user_ticket_number = ''AUT-633''"

text \<open>The ticket emoji U+1F3AB of the first \<open>print\<close>, in UTF-8.\<close>

definition ticket_emoji :: string where
  "ticket_emoji = [CHR 0xF0, CHR 0x9F, CHR 0x8E, CHR 0xAB]"

definition request :: string where
  "request = ''Please get the details for ticket '' @ user_ticket_number"

text \<open>
  \<open>print(str)\<close>: the call is made, and it returns or raises as the standard output of the
  process decides.
\<close>

definition py_print :: "world \<Rightarrow> environ \<Rightarrow> string \<Rightarrow> state \<Rightarrow> unit outcome \<times> state" where
  "py_print w startup str s = (stdout_write w startup str, emit (Print str) s)"

text \<open>
  \<open>main\<close>, in a process that was started in the environment \<open>startup\<close>. Nothing is
  caught: the first \<open>print\<close> comes before the run, the second after it, and an exception
  of either ends \<open>main\<close>.
\<close>

definition main :: "world \<Rightarrow> environ \<Rightarrow> state \<Rightarrow> unit outcome \<times> state" where
  "main w startup s =
     (case create_supervisor_agent w s of
        (Returns supervisor, s1) \<Rightarrow>
          (case py_print w startup
                  (ticket_emoji @ '' Retrieving Jira ticket: '' @ user_ticket_number) s1 of
             (Returns u, s2) \<Rightarrow>
               (let s3 = emit (Run supervisor request) s2
                in case agent_run w supervisor request of
                     Returns response_text \<Rightarrow> py_print w startup response_text s3
                   | Raises err \<Rightarrow> (Raises err, s3)
                   | NeverReturns \<Rightarrow> (NeverReturns, s3))
           | (Raises err, s2) \<Rightarrow> (Raises err, s2)
           | (NeverReturns, s2) \<Rightarrow> (NeverReturns, s2))
      | (Raises err, s1) \<Rightarrow> (Raises err, s1)
      | (NeverReturns, s1) \<Rightarrow> (NeverReturns, s1))"

text \<open>
  The whole process, started in the environment \<open>os_environ\<close> with the \<open>.env\<close> file
  \<open>dotenv\<close>: the module body (the file loaded over the environment, the client built),
  then \<open>asyncio.run(main())\<close>. The process takes no argument; what it meets outside is
  the world \<open>w\<close>. The result is the outcome and the trace.
\<close>

definition program :: "environ \<Rightarrow> environ \<Rightarrow> world \<Rightarrow> unit outcome \<times> event list" where
  "program dotenv os_environ w =
     (case client w (load_dotenv dotenv os_environ) of
        Returns c \<Rightarrow> (case main w os_environ (initial_state c) of (r, s) \<Rightarrow> (r, trace s))
      | Raises err \<Rightarrow> (Raises err, [])
      | NeverReturns \<Rightarrow> (NeverReturns, []))"

text \<open>
  The exit code of the interpreter: 0 when the script runs to its end, 1 when an exception
  reaches the top; a process that never ends has none.
\<close>

fun exit_code :: "unit outcome \<Rightarrow> nat option" where
  "exit_code (Returns u) = Some 0"
| "exit_code (Raises err) = Some 1"
| "exit_code NeverReturns = None"

subsection \<open>Names for the objects of a run, and readers of a trace\<close>

text \<open>
  In a process the MCP client is object 0, the Jira agent object 1 and the supervisor
  object 2. For a client \<open>c\<close> and a discovered tool list \<open>ts\<close> the two agents are:
\<close>

definition jira_agent_of :: "openai_chat_client \<Rightarrow> tool list \<Rightarrow> agent" where
  "jira_agent_of c ts = ChatAgent 1 c jira_instructions ''MCP Jira Agent'' ts []"

definition supervisor_of :: "openai_chat_client \<Rightarrow> tool list \<Rightarrow> agent" where
  "supervisor_of c ts =
     ChatAgent 2 c supervisor_instructions ''Supervisor Agent'' [] [jira_agent_of c ts]"

definition discovery_count :: "event list \<Rightarrow> nat" where
  "discovery_count tr = length (filter is_GetTools tr)"

definition construction_count :: "event list \<Rightarrow> nat" where
  "construction_count tr = length (filter is_NewChatAgent tr)"

fun is_Returns :: "'a outcome \<Rightarrow> bool" where
  "is_Returns (Returns x) = True"
| "is_Returns r = False"

text \<open>The agents that the \<open>Run\<close> events of a trace were called on.\<close>

fun run_agents :: "event list \<Rightarrow> agent list" where
  "run_agents [] = []"
| "run_agents (Run a r # tr) = a # run_agents tr"
| "run_agents (ev # tr) = run_agents tr"

text \<open>The value a configuration gives the tool server for the variable \<open>k\<close>.\<close>

definition tool_source_parameter :: "mcp_config \<Rightarrow> string \<Rightarrow> string option" where
  "tool_source_parameter cfg k =
     (case map_of cfg ''mcp-atlassian'' of None \<Rightarrow> None | Some sc \<Rightarrow> map_of (env sc) k)"

subsection \<open>Example environments and worlds\<close>

definition env_github :: environ where
  "env_github = [''GITHUB_TOKEN'' \<mapsto> ''ghp_example'']"

definition client_github :: openai_chat_client where
  "client_github =
     \<lparr>base_url = Some ''https://models.github.ai/inference'',
      api_key = ApiKey (Some ''ghp_example''),
      model_id = Some ''openai/gpt-4o''\<rparr>"

definition env_github_no_token :: environ where
  "env_github_no_token = [''API_HOST'' \<mapsto> ''github'']"

definition env_bogus :: environ where
  "env_bogus = [''API_HOST'' \<mapsto> ''bogus'', ''OPENAI_API_KEY'' \<mapsto> ''sk-example'']"

definition env_azure_no_deployment :: environ where
  "env_azure_no_deployment =
     [''API_HOST'' \<mapsto> ''azure'', ''AZURE_OPENAI_ENDPOINT'' \<mapsto> ''https://example.openai.azure.com'']"

definition env_jira :: environ where
  "env_jira =
     [''GITHUB_TOKEN'' \<mapsto> ''ghp_example'',
      ''JIRA_URL'' \<mapsto> ''https://jira.example.com'',
      ''JIRA_USERNAME'' \<mapsto> ''alice'',
      ''JIRA_API_TOKEN'' \<mapsto> ''secret'']"

definition env_ascii :: environ where
  "env_ascii = [''GITHUB_TOKEN'' \<mapsto> ''ghp_example'', ''PYTHONIOENCODING'' \<mapsto> ''ascii'']"

definition jira_get_issue :: tool where
  "jira_get_issue = \<lparr>tool_name = ''jira_get_issue'', tool_schema = ''{issue_key: string}''\<rparr>"

definition jira_search :: tool where
  "jira_search = \<lparr>tool_name = ''jira_search'', tool_schema = ''{jql: string}''\<rparr>"

text \<open>
  The standard output of the examples encodes in UTF-8, unless the process was started
  with \<open>PYTHONIOENCODING=ascii\<close>: then a character beyond ASCII cannot be written.
\<close>

definition python_stdout :: "environ \<Rightarrow> string \<Rightarrow> unit outcome" where
  "python_stdout startup str =
     (if startup ''PYTHONIOENCODING'' = Some ''ascii'' \<and> list_ex (\<lambda>c. 127 < (of_char c :: nat)) str
      then Raises UnicodeEncodeError
      else Returns ())"

text \<open>
  Everything works: the constructors return, the tool server lists two tools and the run
  returns a text.
\<close>

definition world_ok :: world where
  "world_ok =
     \<lparr>chat_client_init = (\<lambda>a. Returns ()),
      get_bearer_token_provider = (\<lambda>scope. Returns ()),
      mcp_get_tools = (\<lambda>k cfg. Returns [jira_get_issue, jira_search]),
      agent_run = (\<lambda>a r. Returns ''AUT-633: Fix bug (Open)''),
      stdout_write = python_stdout\<rparr>"

text \<open>The model backend fails during the run.\<close>

definition world_backend_error :: world where
  "world_backend_error =
     \<lparr>chat_client_init = (\<lambda>a. Returns ()),
      get_bearer_token_provider = (\<lambda>scope. Returns ()),
      mcp_get_tools = (\<lambda>k cfg. Returns [jira_get_issue, jira_search]),
      agent_run = (\<lambda>a r. Raises BackendError),
      stdout_write = python_stdout\<rparr>"

text \<open>The tool server cannot be reached the first time and answers from then on.\<close>

definition world_flaky :: world where
  "world_flaky =
     \<lparr>chat_client_init = (\<lambda>a. Returns ()),
      get_bearer_token_provider = (\<lambda>scope. Returns ()),
      mcp_get_tools = (\<lambda>k cfg. if k = 0 then Raises ConnectionError
                                 else Returns [jira_get_issue, jira_search]),
      agent_run = (\<lambda>a r. Returns ''AUT-633: Fix bug (Open)''),
      stdout_write = python_stdout\<rparr>"

section \<open>Properties\<close>

subsection \<open>The functions written out\<close>

lemma create_mcp_client_eq:
  "create_mcp_client w s =
     (case mcp_get_tools w (discoveries s) mcp_config of
        Returns ts \<Rightarrow>
          (Returns (ts, \<lparr>client_id = next_id s, connections = mcp_config\<rparr>),
           s\<lparr>next_id := Suc (next_id s), discoveries := Suc (discoveries s),
             trace := trace s @ [GetTools (next_id s) mcp_config,
               LogInfo (''Discovered '' @ str_nat (length ts) @ '' MCP Jira tools'')]\<rparr>)
      | Raises err \<Rightarrow>
          (Raises err,
           s\<lparr>next_id := Suc (next_id s), discoveries := Suc (discoveries s),
             trace := trace s @ [GetTools (next_id s) mcp_config]\<rparr>)
      | NeverReturns \<Rightarrow>
          (NeverReturns,
           s\<lparr>next_id := Suc (next_id s), discoveries := Suc (discoveries s),
             trace := trace s @ [GetTools (next_id s) mcp_config]\<rparr>))"
  by (simp add: create_mcp_client_def emit_def Let_def split: outcome.splits)

lemma get_jira_agent_cached:
  "jira_agent_global s = Some a \<Longrightarrow> get_jira_agent w s = (Returns a, s)"
  by (simp add: get_jira_agent_def)

lemma get_jira_agent_unset:
  "jira_agent_global s = None \<Longrightarrow>
   get_jira_agent w s =
     (case mcp_get_tools w (discoveries s) mcp_config of
        Returns ts \<Rightarrow>
          (Returns (ChatAgent (Suc (next_id s)) (client_global s) jira_instructions
                      ''MCP Jira Agent'' ts []),
           s\<lparr>jira_agent_global :=
                 Some (ChatAgent (Suc (next_id s)) (client_global s) jira_instructions
                         ''MCP Jira Agent'' ts []),
             mcp_client_global := Some \<lparr>client_id = next_id s, connections = mcp_config\<rparr>,
             next_id := Suc (Suc (next_id s)), discoveries := Suc (discoveries s),
             trace := trace s @ [GetTools (next_id s) mcp_config,
               LogInfo (''Discovered '' @ str_nat (length ts) @ '' MCP Jira tools''),
               NewChatAgent (ChatAgent (Suc (next_id s)) (client_global s) jira_instructions
                         ''MCP Jira Agent'' ts [])]\<rparr>)
      | Raises err \<Rightarrow>
          (Raises err,
           s\<lparr>next_id := Suc (next_id s), discoveries := Suc (discoveries s),
             trace := trace s @ [GetTools (next_id s) mcp_config]\<rparr>)
      | NeverReturns \<Rightarrow>
          (NeverReturns,
           s\<lparr>next_id := Suc (next_id s), discoveries := Suc (discoveries s),
             trace := trace s @ [GetTools (next_id s) mcp_config]\<rparr>))"
  by (simp add: get_jira_agent_def create_jira_mcp_agent_def create_mcp_client_eq emit_def Let_def
      split: outcome.splits)

lemma program_eq:
  "program dotenv os_environ w =
     (case client w (load_dotenv dotenv os_environ) of
        Raises err \<Rightarrow> (Raises err, [])
      | NeverReturns \<Rightarrow> (NeverReturns, [])
      | Returns c \<Rightarrow>
          (case mcp_get_tools w 0 mcp_config of
             Raises err \<Rightarrow> (Raises err, [GetTools 0 mcp_config])
           | NeverReturns \<Rightarrow> (NeverReturns, [GetTools 0 mcp_config])
           | Returns ts \<Rightarrow>
               (case stdout_write w os_environ
                       (ticket_emoji @ '' Retrieving Jira ticket: '' @ user_ticket_number) of
                  Raises err \<Rightarrow>
                    (Raises err,
                     [GetTools 0 mcp_config,
                      LogInfo (''Discovered '' @ str_nat (length ts) @ '' MCP Jira tools''),
                      NewChatAgent (jira_agent_of c ts),
                      NewChatAgent (supervisor_of c ts),
                      Print (ticket_emoji @ '' Retrieving Jira ticket: '' @ user_ticket_number)])
                | NeverReturns \<Rightarrow>
                    (NeverReturns,
                     [GetTools 0 mcp_config,
                      LogInfo (''Discovered '' @ str_nat (length ts) @ '' MCP Jira tools''),
                      NewChatAgent (jira_agent_of c ts),
                      NewChatAgent (supervisor_of c ts),
                      Print (ticket_emoji @ '' Retrieving Jira ticket: '' @ user_ticket_number)])
                | Returns u \<Rightarrow>
                    (case agent_run w (supervisor_of c ts) request of
                       Returns t \<Rightarrow>
                         (stdout_write w os_environ t,
                          [GetTools 0 mcp_config,
                           LogInfo (''Discovered '' @ str_nat (length ts) @ '' MCP Jira tools''),
                           NewChatAgent (jira_agent_of c ts),
                           NewChatAgent (supervisor_of c ts),
                           Print (ticket_emoji @ '' Retrieving Jira ticket: '' @ user_ticket_number),
                           Run (supervisor_of c ts) request,
                           Print t])
                     | Raises err \<Rightarrow>
                         (Raises err,
                          [GetTools 0 mcp_config,
                           LogInfo (''Discovered '' @ str_nat (length ts) @ '' MCP Jira tools''),
                           NewChatAgent (jira_agent_of c ts),
                           NewChatAgent (supervisor_of c ts),
                           Print (ticket_emoji @ '' Retrieving Jira ticket: '' @ user_ticket_number),
                           Run (supervisor_of c ts) request])
                     | NeverReturns \<Rightarrow>
                         (NeverReturns,
                          [GetTools 0 mcp_config,
                           LogInfo (''Discovered '' @ str_nat (length ts) @ '' MCP Jira tools''),
                           NewChatAgent (jira_agent_of c ts),
                           NewChatAgent (supervisor_of c ts),
                           Print (ticket_emoji @ '' Retrieving Jira ticket: '' @ user_ticket_number),
                           Run (supervisor_of c ts) request])))))"
  by (simp add: program_def main_def py_print_def create_supervisor_agent_def get_jira_agent_unset
      initial_state_def emit_def Let_def jira_agent_of_def supervisor_of_def numeral_2_eq_2
      split: outcome.splits)

subsection \<open>The examples evaluated\<close>

lemma client_env_github:
  "client world_ok (load_dotenv Map.empty env_github) = Returns client_github"
  by (simp add: client_def OpenAIChatClient_def world_ok_def load_dotenv_def env_github_def
      getenv_def client_github_def)

lemma stdout_no_encoding [simp]:
  "startup ''PYTHONIOENCODING'' = None \<Longrightarrow> python_stdout startup str = Returns ()"
  by (simp add: python_stdout_def)

lemma str_nat_2: "str_nat (Suc (Suc 0)) = ''2''"
  by (simp add: str_nat.simps)

lemma world_ok_fields:
  "chat_client_init world_ok = (\<lambda>a. Returns ())"
  "get_bearer_token_provider world_ok = (\<lambda>scope. Returns ())"
  "mcp_get_tools world_ok = (\<lambda>k cfg. Returns [jira_get_issue, jira_search])"
  "agent_run world_ok = (\<lambda>a r. Returns ''AUT-633: Fix bug (Open)'')"
  "stdout_write world_ok = python_stdout"
  by (simp_all add: world_ok_def)

lemma world_backend_error_fields:
  "chat_client_init world_backend_error = (\<lambda>a. Returns ())"
  "get_bearer_token_provider world_backend_error = (\<lambda>scope. Returns ())"
  "mcp_get_tools world_backend_error = (\<lambda>k cfg. Returns [jira_get_issue, jira_search])"
  "agent_run world_backend_error = (\<lambda>a r. Raises BackendError)"
  "stdout_write world_backend_error = python_stdout"
  by (simp_all add: world_backend_error_def)

lemma client_env_github_backend_error:
  "client world_backend_error (load_dotenv Map.empty env_github) = Returns client_github"
  by (simp add: client_def OpenAIChatClient_def world_backend_error_def load_dotenv_def
      env_github_def getenv_def client_github_def)

lemma stdout_env_github: "python_stdout env_github str = Returns ()"
  by (simp add: env_github_def)

lemma stdout_env_jira: "python_stdout env_jira str = Returns ()"
  by (simp add: env_jira_def)

lemma stdout_env_ascii_emoji:
  "python_stdout env_ascii (ticket_emoji @ str) = Raises UnicodeEncodeError"
  by (simp add: python_stdout_def env_ascii_def ticket_emoji_def)

lemma create_supervisor_agent_world_ok:
  "create_supervisor_agent world_ok (initial_state client_github) =
     (Returns (supervisor_of client_github [jira_get_issue, jira_search]),
      \<lparr>client_global = client_github,
       jira_agent_global = Some (jira_agent_of client_github [jira_get_issue, jira_search]),
       mcp_client_global = Some \<lparr>client_id = 0, connections = mcp_config\<rparr>,
       next_id = 3, discoveries = 1,
       trace = [GetTools 0 mcp_config, LogInfo ''Discovered 2 MCP Jira tools'',
                NewChatAgent (jira_agent_of client_github [jira_get_issue, jira_search]),
                NewChatAgent (supervisor_of client_github [jira_get_issue, jira_search])]\<rparr>)"
  by (simp add: create_supervisor_agent_def get_jira_agent_unset initial_state_def world_ok_def
      emit_def Let_def jira_agent_of_def supervisor_of_def numeral_2_eq_2 numeral_3_eq_3 str_nat_2)

subsection \<open>Discovery and its configuration\<close>

text \<open>
  Claim C2 asks that discovery with a missing or empty required parameter (base URL,
  username, API token) fails with \<open>ConfigurationError\<close> before any connection attempt.
  \<open>create_mcp_client\<close> checks nothing. Its configuration is the literal of the source,
  whose \<open>JIRA_URL\<close> is the empty string; it always makes the connection attempt with that
  configuration, and it returns or raises what the tool source answers.
\<close>

theorem create_mcp_client_connects_unchecked:
  "tool_source_parameter mcp_config ''JIRA_URL'' = Some '''' \<and>
   fst (create_mcp_client w s) =
     (case mcp_get_tools w (discoveries s) mcp_config of
        Returns ts \<Rightarrow> Returns (ts, \<lparr>client_id = next_id s, connections = mcp_config\<rparr>)
      | Raises err \<Rightarrow> Raises err
      | NeverReturns \<Rightarrow> NeverReturns) \<and>
   trace (snd (create_mcp_client w s)) =
     trace s @ GetTools (next_id s) mcp_config #
       (case mcp_get_tools w (discoveries s) mcp_config of
          Returns ts \<Rightarrow> [LogInfo (''Discovered '' @ str_nat (length ts) @ '' MCP Jira tools'')]
        | Raises err \<Rightarrow> []
        | NeverReturns \<Rightarrow> [])"
  by (simp add: tool_source_parameter_def mcp_config_def
      create_mcp_client_eq [unfolded mcp_config_def] split: outcome.splits)

text \<open>
  C2, counterexample: the base URL of the configuration is empty, the connection attempt
  is made all the same, and discovery returns the two tools of the example.
\<close>

theorem empty_jira_url_counterexample:
  "tool_source_parameter mcp_config ''JIRA_URL'' = Some '''' \<and>
   fst (create_mcp_client world_ok (initial_state client_github)) =
     Returns ([jira_get_issue, jira_search], \<lparr>client_id = 0, connections = mcp_config\<rparr>) \<and>
   trace (snd (create_mcp_client world_ok (initial_state client_github))) =
     [GetTools 0 mcp_config, LogInfo ''Discovered 2 MCP Jira tools'']"
proof -
  have "tool_source_parameter mcp_config ''JIRA_URL'' = Some ''''"
    by (simp add: tool_source_parameter_def mcp_config_def)
  moreover have "create_mcp_client world_ok (initial_state client_github) =
     (Returns ([jira_get_issue, jira_search], \<lparr>client_id = 0, connections = mcp_config\<rparr>),
      (initial_state client_github)\<lparr>next_id := 1, discoveries := 1,
         trace := [GetTools 0 mcp_config, LogInfo ''Discovered 2 MCP Jira tools'']\<rparr>)"
    by (simp add: create_mcp_client_eq world_ok_def initial_state_def str_nat_2)
  ultimately show ?thesis by simp
qed

subsection \<open>The provider profiles\<close>

text \<open>
  Claim C3 asks that an unsupported provider discriminator makes the construction of the
  backend fail with \<open>ConfigurationError\<close>, with no fallback to a default profile. The
  script has a fallback: for every value of \<open>API_HOST\<close> other than \<open>azure\<close>, \<open>github\<close>
  and \<open>ollama\<close> it takes the last branch and calls the constructor with the arguments of
  the OpenAI profile, the key \<open>OPENAI_API_KEY\<close> and the model \<open>OPENAI_MODEL\<close> or
  \<open>gpt-4o\<close>. The client of the module is what that constructor call gives.
\<close>

theorem unknown_provider_falls_back_to_openai:
  "getenv e ''API_HOST'' ''github'' \<notin> {''azure'', ''github'', ''ollama''} \<Longrightarrow>
   client w e =
     OpenAIChatClient w
       \<lparr>base_url = None, api_key = ApiKey (e ''OPENAI_API_KEY''),
        model_id = Some (getenv e ''OPENAI_MODEL'' ''gpt-4o'')\<rparr>"
  by (simp add: client_def Let_def)

text \<open>
  C3, witness: the discriminator \<open>bogus\<close>, in the world where the constructor returns.
\<close>

theorem unknown_provider_falls_back_to_openai_witness:
  "getenv env_bogus ''API_HOST'' ''github'' \<notin> {''azure'', ''github'', ''ollama''} \<and>
   client world_ok env_bogus =
     OpenAIChatClient world_ok
       \<lparr>base_url = None, api_key = ApiKey (env_bogus ''OPENAI_API_KEY''),
        model_id = Some (getenv env_bogus ''OPENAI_MODEL'' ''gpt-4o'')\<rparr> \<and>
   OpenAIChatClient world_ok
       \<lparr>base_url = None, api_key = ApiKey (env_bogus ''OPENAI_API_KEY''),
        model_id = Some (getenv env_bogus ''OPENAI_MODEL'' ''gpt-4o'')\<rparr> =
     Returns \<lparr>base_url = None, api_key = ApiKey (Some ''sk-example''),
              model_id = Some ''gpt-4o''\<rparr>"
proof -
  have h: "getenv env_bogus ''API_HOST'' ''github'' \<notin> {''azure'', ''github'', ''ollama''}"
    by (simp add: env_bogus_def getenv_def)
  have "OpenAIChatClient world_ok
       \<lparr>base_url = None, api_key = ApiKey (env_bogus ''OPENAI_API_KEY''),
        model_id = Some (getenv env_bogus ''OPENAI_MODEL'' ''gpt-4o'')\<rparr> =
     Returns \<lparr>base_url = None, api_key = ApiKey (Some ''sk-example''),
              model_id = Some ''gpt-4o''\<rparr>"
    by (simp add: OpenAIChatClient_def world_ok_def env_bogus_def getenv_def)
  with unknown_provider_falls_back_to_openai [OF h, of world_ok] h show ?thesis by simp
qed

text \<open>
  C3, counterexample: with \<open>API_HOST=bogus\<close> and a key for OpenAI the client is built,
  with the key of the OpenAI profile and its default model.
\<close>

theorem unsupported_provider_counterexample:
  "client world_ok env_bogus =
     Returns \<lparr>base_url = None, api_key = ApiKey (Some ''sk-example''),
              model_id = Some ''gpt-4o''\<rparr> \<and>
   client world_ok env_bogus \<noteq> Raises ConfigurationError"
  by (simp add: client_def OpenAIChatClient_def world_ok_def env_bogus_def getenv_def)

text \<open>
  Claim C8 asks that, for every profile, a missing required parameter makes the
  construction fail with \<open>ConfigurationError\<close>. The script checks no parameter and has no
  \<open>ConfigurationError\<close> of its own. In the GitHub profile a missing \<open>GITHUB_TOKEN\<close>
  raises \<open>KeyError\<close>, before the constructor is called. Every other parameter that is
  missing is replaced by the default of its profile (\<open>GITHUB_MODEL\<close>,
  \<open>OLLAMA_ENDPOINT\<close>, \<open>OLLAMA_MODEL\<close>, \<open>OPENAI_MODEL\<close>) or handed to the constructor
  as \<open>None\<close> (\<open>AZURE_OPENAI_CHAT_DEPLOYMENT\<close>, \<open>OPENAI_API_KEY\<close>), and the
  construction ends as the library calls end. The Azure profile is stated for a present
  endpoint only.
\<close>

theorem missing_parameters_are_not_checked:
  "(getenv e ''API_HOST'' ''github'' = ''github'' \<and> e ''GITHUB_TOKEN'' = None \<longrightarrow>
      client w e = Raises (KeyError ''GITHUB_TOKEN'')) \<and>
   (getenv e ''API_HOST'' ''github'' = ''github'' \<and> e ''GITHUB_TOKEN'' = Some token \<longrightarrow>
      client w e =
        OpenAIChatClient w
          \<lparr>base_url = Some ''https://models.github.ai/inference'',
           api_key = ApiKey (Some token),
           model_id = Some (case e ''GITHUB_MODEL'' of
                              None \<Rightarrow> ''openai/gpt-4o'' | Some m \<Rightarrow> m)\<rparr>) \<and>
   (getenv e ''API_HOST'' ''github'' = ''ollama'' \<longrightarrow>
      client w e =
        OpenAIChatClient w
          \<lparr>base_url = Some (case e ''OLLAMA_ENDPOINT'' of
                              None \<Rightarrow> ''http://localhost:11434/v1'' | Some u \<Rightarrow> u),
           api_key = ApiKey (Some ''none''),
           model_id = Some (case e ''OLLAMA_MODEL'' of
                              None \<Rightarrow> ''llama3.1:latest'' | Some m \<Rightarrow> m)\<rparr>) \<and>
   (getenv e ''API_HOST'' ''github'' \<notin> {''azure'', ''github'', ''ollama''} \<longrightarrow>
      client w e =
        OpenAIChatClient w
          \<lparr>base_url = None,
           api_key = ApiKey (e ''OPENAI_API_KEY''),
           model_id = Some (case e ''OPENAI_MODEL'' of None \<Rightarrow> ''gpt-4o'' | Some m \<Rightarrow> m)\<rparr>) \<and>
   (getenv e ''API_HOST'' ''github'' = ''azure'' \<and> e ''AZURE_OPENAI_ENDPOINT'' = Some endpoint \<longrightarrow>
      client w e =
        (case get_bearer_token_provider w ''https://cognitiveservices.azure.com/.default'' of
           Returns u \<Rightarrow>
             OpenAIChatClient w
               \<lparr>base_url = Some (endpoint @ ''/openai/v1/''),
                api_key = BearerTokenProvider ''https://cognitiveservices.azure.com/.default'',
                model_id = e ''AZURE_OPENAI_CHAT_DEPLOYMENT''\<rparr>
         | Raises err \<Rightarrow> Raises err
         | NeverReturns \<Rightarrow> NeverReturns)) \<and>
   (client w e = Raises ConfigurationError \<longrightarrow>
      (\<exists>a. chat_client_init w a = Raises ConfigurationError) \<or>
      get_bearer_token_provider w ''https://cognitiveservices.azure.com/.default'' =
        Raises ConfigurationError)"
proof (intro conjI impI)
  assume "client w e = Raises ConfigurationError"
  then show "(\<exists>a. chat_client_init w a = Raises ConfigurationError) \<or>
      get_bearer_token_provider w ''https://cognitiveservices.azure.com/.default'' =
        Raises ConfigurationError"
    by (auto simp add: client_def OpenAIChatClient_def Let_def
        split: if_splits option.splits outcome.splits)
qed (auto simp add: client_def getenv_def Let_def split: option.splits)

text \<open>
  C8, witness: the GitHub profile with no token raises \<open>KeyError\<close>; the Azure profile
  with an endpoint and no deployment name has the constructor called with \<open>model_id=None\<close>.
\<close>

theorem missing_parameters_are_not_checked_witness:
  "client world_ok env_github_no_token = Raises (KeyError ''GITHUB_TOKEN'') \<and>
   client world_ok env_azure_no_deployment =
     OpenAIChatClient world_ok
       \<lparr>base_url = Some ''https://example.openai.azure.com/openai/v1/'',
        api_key = BearerTokenProvider ''https://cognitiveservices.azure.com/.default'',
        model_id = None\<rparr>"
proof -
  have g: "getenv env_github_no_token ''API_HOST'' ''github'' = ''github'' \<and>
      env_github_no_token ''GITHUB_TOKEN'' = None"
    by (simp add: env_github_no_token_def getenv_def)
  have a: "getenv env_azure_no_deployment ''API_HOST'' ''github'' = ''azure'' \<and>
      env_azure_no_deployment ''AZURE_OPENAI_ENDPOINT'' = Some ''https://example.openai.azure.com''"
    by (simp add: env_azure_no_deployment_def getenv_def)
  have d: "env_azure_no_deployment ''AZURE_OPENAI_CHAT_DEPLOYMENT'' = None"
    by (simp add: env_azure_no_deployment_def)
  have b: "get_bearer_token_provider world_ok ''https://cognitiveservices.azure.com/.default'' =
      Returns ()"
    by (simp add: world_ok_def)
  from missing_parameters_are_not_checked [where e = env_github_no_token and w = world_ok] g
  have 1: "client world_ok env_github_no_token = Raises (KeyError ''GITHUB_TOKEN'')"
    by blast
  from missing_parameters_are_not_checked
    [where e = env_azure_no_deployment and w = world_ok
       and endpoint = "''https://example.openai.azure.com''"] a
  have "client world_ok env_azure_no_deployment =
        (case get_bearer_token_provider world_ok ''https://cognitiveservices.azure.com/.default'' of
           Returns u \<Rightarrow>
             OpenAIChatClient world_ok
               \<lparr>base_url = Some (''https://example.openai.azure.com'' @ ''/openai/v1/''),
                api_key = BearerTokenProvider ''https://cognitiveservices.azure.com/.default'',
                model_id = env_azure_no_deployment ''AZURE_OPENAI_CHAT_DEPLOYMENT''\<rparr>
         | Raises err \<Rightarrow> Raises err
         | NeverReturns \<Rightarrow> NeverReturns)"
    by blast
  with b d 1 show ?thesis by simp
qed

text \<open>
  C8, counterexample: the GitHub profile with no \<open>GITHUB_TOKEN\<close>. The construction
  fails, with \<open>KeyError\<close> and not with \<open>ConfigurationError\<close>.
\<close>

theorem missing_token_counterexample:
  "getenv env_github_no_token ''API_HOST'' ''github'' = ''github'' \<and>
   env_github_no_token ''GITHUB_TOKEN'' = None \<and>
   client world_ok env_github_no_token = Raises (KeyError ''GITHUB_TOKEN'') \<and>
   client world_ok env_github_no_token \<noteq> Raises ConfigurationError"
  by (simp add: client_def env_github_no_token_def getenv_def)

text \<open>
  Claim C10: when \<open>API_HOST\<close> is unset once the \<open>.env\<close> file is loaded, the GitHub
  profile is taken. The constructor is called with the fixed endpoint
  \<open>https://models.github.ai/inference\<close>, the key \<open>GITHUB_TOKEN\<close> and the model
  \<open>GITHUB_MODEL\<close>, or \<open>openai/gpt-4o\<close> when that is unset; when \<open>GITHUB_TOKEN\<close> is
  absent the module body raises \<open>KeyError\<close>.
\<close>

theorem github_is_the_default_profile:
  "load_dotenv dotenv os_environ ''API_HOST'' = None \<Longrightarrow>
   client w (load_dotenv dotenv os_environ) =
     (case load_dotenv dotenv os_environ ''GITHUB_TOKEN'' of
        None \<Rightarrow> Raises (KeyError ''GITHUB_TOKEN'')
      | Some token \<Rightarrow>
          OpenAIChatClient w
            \<lparr>base_url = Some ''https://models.github.ai/inference'',
             api_key = ApiKey (Some token),
             model_id = Some (case load_dotenv dotenv os_environ ''GITHUB_MODEL'' of
                                None \<Rightarrow> ''openai/gpt-4o''
                              | Some m \<Rightarrow> m)\<rparr>)"
  by (simp add: client_def getenv_def split: option.splits)

text \<open>
  C10, witness: an environment with only \<open>GITHUB_TOKEN\<close> gives the GitHub client with
  the default model, and the empty environment raises \<open>KeyError\<close>.
\<close>

theorem github_is_the_default_profile_witness:
  "load_dotenv Map.empty env_github ''API_HOST'' = None \<and>
   client world_ok (load_dotenv Map.empty env_github) =
     Returns \<lparr>base_url = Some ''https://models.github.ai/inference'',
              api_key = ApiKey (Some ''ghp_example''),
              model_id = Some ''openai/gpt-4o''\<rparr> \<and>
   client world_ok (load_dotenv Map.empty Map.empty) = Raises (KeyError ''GITHUB_TOKEN'')"
proof -
  have h1: "load_dotenv Map.empty env_github ''API_HOST'' = None"
    by (simp add: load_dotenv_def env_github_def)
  have h2: "load_dotenv Map.empty Map.empty ''API_HOST'' = None"
    by (simp add: load_dotenv_def)
  from github_is_the_default_profile [OF h1, of world_ok]
    github_is_the_default_profile [OF h2, of world_ok] h1
  show ?thesis
    by (simp add: load_dotenv_def env_github_def OpenAIChatClient_def world_ok_def)
qed

subsection \<open>The cached Jira agent\<close>

lemma get_jira_agent_Returns:
  "get_jira_agent w s = (Returns a, s') \<Longrightarrow> jira_agent_global s' = Some a"
proof (cases "jira_agent_global s")
  case None
  assume "get_jira_agent w s = (Returns a, s')"
  with None show ?thesis
    by (cases "mcp_get_tools w (discoveries s) mcp_config") (auto simp add: get_jira_agent_unset)
next
  case (Some b)
  assume "get_jira_agent w s = (Returns a, s')"
  with Some show ?thesis by (simp add: get_jira_agent_cached)
qed

text \<open>Once the global is set, every call returns it and changes nothing.\<close>

lemma get_jira_agent_calls_cached:
  "jira_agent_global s = Some a \<Longrightarrow>
   get_jira_agent_calls w n s = (replicate n (Returns a), s)"
  by (induction n) (simp_all add: get_jira_agent_cached)

text \<open>
  From a state where the global is unset, a sequence of calls is a run of calls that did
  not return, each of which asked for a discovery, followed by calls that all return one
  agent, of which only the first asked for a discovery and built the agent.
\<close>

lemma get_jira_agent_calls_unset:
  "jira_agent_global s = None \<Longrightarrow> get_jira_agent_calls w n s = (rs, s') \<Longrightarrow>
   \<exists>failed m a.
     rs = failed @ replicate m (Returns a) \<and>
     (\<forall>r \<in> set failed. \<not> is_Returns r) \<and>
     discovery_count (trace s') =
       discovery_count (trace s) + length failed + (if m = 0 then 0 else 1) \<and>
     construction_count (trace s') =
       construction_count (trace s) + (if m = 0 then 0 else 1) \<and>
     jira_agent_global s' = (if m = 0 then None else Some a)"
proof (induction n arbitrary: s rs s')
  case 0
  then have "rs = [] @ replicate 0 (Returns undefined)" and "s' = s" by simp_all
  with 0 show ?case by (intro exI [of _ "[]"] exI [of _ 0]) simp
next
  case (Suc n)
  show ?case
  proof (cases "mcp_get_tools w (discoveries s) mcp_config")
    case (Returns ts)
    let ?a = "ChatAgent (Suc (next_id s)) (client_global s) jira_instructions
                ''MCP Jira Agent'' ts []"
    let ?s1 = "s\<lparr>jira_agent_global := Some ?a,
             mcp_client_global := Some \<lparr>client_id = next_id s, connections = mcp_config\<rparr>,
             next_id := Suc (Suc (next_id s)), discoveries := Suc (discoveries s),
             trace := trace s @ [GetTools (next_id s) mcp_config,
               LogInfo (''Discovered '' @ str_nat (length ts) @ '' MCP Jira tools''),
               NewChatAgent ?a]\<rparr>"
    have g: "get_jira_agent w s = (Returns ?a, ?s1)"
      using Suc.prems(1) Returns by (simp add: get_jira_agent_unset)
    have "jira_agent_global ?s1 = Some ?a" by simp
    then have c: "get_jira_agent_calls w n ?s1 = (replicate n (Returns ?a), ?s1)"
      by (rule get_jira_agent_calls_cached)
    from Suc.prems(2) g c have rs: "rs = [] @ replicate (Suc n) (Returns ?a)" and s': "s' = ?s1"
      by simp_all
    show ?thesis
      apply (rule exI [of _ "[]"], rule exI [of _ "Suc n"], rule exI [of _ ?a])
      using rs s' by (simp add: discovery_count_def construction_count_def)
  next
    case (Raises err)
    let ?s1 = "s\<lparr>next_id := Suc (next_id s), discoveries := Suc (discoveries s),
             trace := trace s @ [GetTools (next_id s) mcp_config]\<rparr>"
    have g: "get_jira_agent w s = (Raises err, ?s1)"
      using Suc.prems(1) Raises by (simp add: get_jira_agent_unset)
    obtain rs1 s2 where c: "get_jira_agent_calls w n ?s1 = (rs1, s2)"
      by (cases "get_jira_agent_calls w n ?s1")
    from Suc.prems(2) g c have rs: "rs = Raises err # rs1" and s': "s' = s2" by simp_all
    have "jira_agent_global ?s1 = None" using Suc.prems(1) by simp
    from Suc.IH [OF this c] obtain failed m a where ih:
      "rs1 = failed @ replicate m (Returns a)"
      "\<forall>r \<in> set failed. \<not> is_Returns r"
      "discovery_count (trace s2) =
         discovery_count (trace ?s1) + length failed + (if m = 0 then 0 else 1)"
      "construction_count (trace s2) =
         construction_count (trace ?s1) + (if m = 0 then 0 else 1)"
      "jira_agent_global s2 = (if m = 0 then None else Some a)"
      by blast
    show ?thesis
      apply (rule exI [of _ "Raises err # failed"], rule exI [of _ m], rule exI [of _ a])
      using rs s' ih by (simp add: discovery_count_def construction_count_def)
  next
    case NeverReturns
    let ?s1 = "s\<lparr>next_id := Suc (next_id s), discoveries := Suc (discoveries s),
             trace := trace s @ [GetTools (next_id s) mcp_config]\<rparr>"
    have g: "get_jira_agent w s = (NeverReturns, ?s1)"
      using Suc.prems(1) NeverReturns by (simp add: get_jira_agent_unset)
    from Suc.prems(2) g have rs: "rs = [NeverReturns] @ replicate 0 (Returns undefined)"
      and s': "s' = ?s1" by simp_all
    show ?thesis
      apply (rule exI [of _ "[NeverReturns]"], rule exI [of _ 0])
      using rs s' Suc.prems(1) by (simp add: discovery_count_def construction_count_def)
  qed
qed

lemma get_jira_agent_calls_world_flaky:
  "get_jira_agent_calls world_flaky 2 (initial_state client_github) =
     ([Raises ConnectionError,
       Returns (ChatAgent 2 client_github jira_instructions ''MCP Jira Agent''
                  [jira_get_issue, jira_search] [])],
      \<lparr>client_global = client_github,
       jira_agent_global =
         Some (ChatAgent 2 client_github jira_instructions ''MCP Jira Agent''
                 [jira_get_issue, jira_search] []),
       mcp_client_global = Some \<lparr>client_id = 1, connections = mcp_config\<rparr>,
       next_id = 3, discoveries = 2,
       trace = [GetTools 0 mcp_config, GetTools 1 mcp_config,
                LogInfo ''Discovered 2 MCP Jira tools'',
                NewChatAgent (ChatAgent 2 client_github jira_instructions ''MCP Jira Agent''
                                [jira_get_issue, jira_search] [])]\<rparr>)"
  by (simp add: numeral_2_eq_2 numeral_3_eq_3 get_jira_agent_unset get_jira_agent_cached
      initial_state_def world_flaky_def str_nat_2)

text \<open>
  Claim C4 asks that, for every sequence of calls of \<open>get_jira_agent\<close>, discovery and
  construction run only on the first call and every call returns the same agent instance.
  The accessor caches a success only: a call that raises leaves \<open>_jira_agent\<close> unset,
  and the next call runs discovery again. What holds, from the start of the process: the
  calls that do not return an agent come first and each of them runs one discovery; the
  first call that returns runs one discovery and builds the agent, once; every later call
  returns that same agent, runs nothing, and the global is never replaced.
\<close>

theorem get_jira_agent_discovers_until_first_success:
  assumes "jira_agent_global s = None" and "get_jira_agent_calls w n s = (rs, s')"
  shows "\<exists>failed m a.
     rs = failed @ replicate m (Returns a) \<and>
     (\<forall>r \<in> set failed. \<not> is_Returns r) \<and>
     discovery_count (trace s') =
       discovery_count (trace s) + length failed + (if m = 0 then 0 else 1) \<and>
     construction_count (trace s') =
       construction_count (trace s) + (if m = 0 then 0 else 1) \<and>
     (m \<noteq> 0 \<longrightarrow> jira_agent_global s' = Some a \<and> get_jira_agent w s' = (Returns a, s'))"
proof -
  from get_jira_agent_calls_unset [OF assms] obtain failed m a where h:
    "rs = failed @ replicate m (Returns a)"
    "\<forall>r \<in> set failed. \<not> is_Returns r"
    "discovery_count (trace s') =
       discovery_count (trace s) + length failed + (if m = 0 then 0 else 1)"
    "construction_count (trace s') =
       construction_count (trace s) + (if m = 0 then 0 else 1)"
    "jira_agent_global s' = (if m = 0 then None else Some a)"
    by blast
  have "m \<noteq> 0 \<longrightarrow> jira_agent_global s' = Some a \<and> get_jira_agent w s' = (Returns a, s')"
    using h(5) by (simp add: get_jira_agent_cached)
  with h(1-4) show ?thesis by blast
qed

text \<open>
  C4, witness: two calls where the tool server cannot be reached the first time. The first
  call raises, the second returns the agent.
\<close>

theorem get_jira_agent_discovers_until_first_success_witness:
  "jira_agent_global (initial_state client_github) = None \<and>
   fst (get_jira_agent_calls world_flaky 2 (initial_state client_github)) =
     [Raises ConnectionError,
      Returns (ChatAgent 2 client_github jira_instructions ''MCP Jira Agent''
                 [jira_get_issue, jira_search] [])] \<and>
   (\<exists>failed m a.
      fst (get_jira_agent_calls world_flaky 2 (initial_state client_github)) =
        failed @ replicate m (Returns a) \<and>
      (\<forall>r \<in> set failed. \<not> is_Returns r) \<and>
      discovery_count (trace (snd (get_jira_agent_calls world_flaky 2 (initial_state client_github)))) =
        discovery_count (trace (initial_state client_github)) + length failed +
        (if m = 0 then 0 else 1) \<and>
      construction_count (trace (snd (get_jira_agent_calls world_flaky 2 (initial_state client_github)))) =
        construction_count (trace (initial_state client_github)) + (if m = 0 then 0 else 1) \<and>
      (m \<noteq> 0 \<longrightarrow>
         jira_agent_global (snd (get_jira_agent_calls world_flaky 2 (initial_state client_github))) =
           Some a \<and>
         get_jira_agent world_flaky
             (snd (get_jira_agent_calls world_flaky 2 (initial_state client_github))) =
           (Returns a, snd (get_jira_agent_calls world_flaky 2 (initial_state client_github)))))"
proof (intro conjI)
  show h1: "jira_agent_global (initial_state client_github) = None"
    by (simp add: initial_state_def)
  show "fst (get_jira_agent_calls world_flaky 2 (initial_state client_github)) =
     [Raises ConnectionError,
      Returns (ChatAgent 2 client_github jira_instructions ''MCP Jira Agent''
                 [jira_get_issue, jira_search] [])]"
    by (simp add: get_jira_agent_calls_world_flaky)
  have h2: "get_jira_agent_calls world_flaky 2 (initial_state client_github) =
     (fst (get_jira_agent_calls world_flaky 2 (initial_state client_github)),
      snd (get_jira_agent_calls world_flaky 2 (initial_state client_github)))"
    by simp
  show "\<exists>failed m a.
      fst (get_jira_agent_calls world_flaky 2 (initial_state client_github)) =
        failed @ replicate m (Returns a) \<and>
      (\<forall>r \<in> set failed. \<not> is_Returns r) \<and>
      discovery_count (trace (snd (get_jira_agent_calls world_flaky 2 (initial_state client_github)))) =
        discovery_count (trace (initial_state client_github)) + length failed +
        (if m = 0 then 0 else 1) \<and>
      construction_count (trace (snd (get_jira_agent_calls world_flaky 2 (initial_state client_github)))) =
        construction_count (trace (initial_state client_github)) + (if m = 0 then 0 else 1) \<and>
      (m \<noteq> 0 \<longrightarrow>
         jira_agent_global (snd (get_jira_agent_calls world_flaky 2 (initial_state client_github))) =
           Some a \<and>
         get_jira_agent world_flaky
             (snd (get_jira_agent_calls world_flaky 2 (initial_state client_github))) =
           (Returns a, snd (get_jira_agent_calls world_flaky 2 (initial_state client_github))))"
    by (rule get_jira_agent_discovers_until_first_success [OF h1 h2])
qed

text \<open>
  C4, counterexample: in that same sequence of two calls discovery runs twice, on the
  first call and again on the second.
\<close>

theorem rediscovery_counterexample:
  "fst (get_jira_agent_calls world_flaky 2 (initial_state client_github)) =
     [Raises ConnectionError,
      Returns (ChatAgent 2 client_github jira_instructions ''MCP Jira Agent''
                 [jira_get_issue, jira_search] [])] \<and>
   trace (snd (get_jira_agent_calls world_flaky 2 (initial_state client_github))) =
     [GetTools 0 mcp_config, GetTools 1 mcp_config,
      LogInfo ''Discovered 2 MCP Jira tools'',
      NewChatAgent (ChatAgent 2 client_github jira_instructions ''MCP Jira Agent''
                      [jira_get_issue, jira_search] [])] \<and>
   discovery_count (trace (snd (get_jira_agent_calls world_flaky 2 (initial_state client_github)))) = 2"
  by (simp add: get_jira_agent_calls_world_flaky discovery_count_def)

subsection \<open>The supervisor\<close>

lemma program_world_ok:
  "program Map.empty env_github world_ok =
     (Returns (),
      [GetTools 0 mcp_config,
       LogInfo ''Discovered 2 MCP Jira tools'',
       NewChatAgent (jira_agent_of client_github [jira_get_issue, jira_search]),
       NewChatAgent (supervisor_of client_github [jira_get_issue, jira_search]),
       Print (ticket_emoji @ '' Retrieving Jira ticket: '' @ user_ticket_number),
       Run (supervisor_of client_github [jira_get_issue, jira_search]) request,
       Print ''AUT-633: Fix bug (Open)''])"
  by (simp add: program_eq client_env_github world_ok_fields stdout_env_github str_nat_2)

text \<open>
  Claim C6: the capability set of the Supervisor holds agents only. The supervisor that
  \<open>create_supervisor_agent\<close> returns is given no tools, and its one capability is the
  cached Jira agent. Nothing in the script changes an agent after its construction, and
  the agent that the process runs is that supervisor: every agent a \<open>Run\<close> event of the
  process names has agent capabilities only.
\<close>

theorem supervisor_holds_only_agents:
  "(create_supervisor_agent w s = (Returns supervisor, s') \<longrightarrow>
      tools supervisor = [] \<and>
      list_all is_AgentCapability (capabilities supervisor) \<and>
      (\<exists>jira. jira_agent_global s' = Some jira \<and>
         capabilities supervisor = [AgentCapability jira])) \<and>
   list_all (\<lambda>a. list_all is_AgentCapability (capabilities a))
     (run_agents (snd (program dotenv os_environ w)))"
proof (intro conjI impI)
  assume c: "create_supervisor_agent w s = (Returns supervisor, s')"
  obtain r s1 where g: "get_jira_agent w s = (r, s1)" by (cases "get_jira_agent w s")
  from c g obtain jira where r: "r = Returns jira"
    by (cases r) (simp_all add: create_supervisor_agent_def)
  from g r have j: "jira_agent_global s1 = Some jira" by (simp add: get_jira_agent_Returns)
  from c g r have sup: "supervisor = ChatAgent (next_id s1) (client_global s1)
      supervisor_instructions ''Supervisor Agent'' [] [jira]"
    and s': "jira_agent_global s' = jira_agent_global s1"
    by (auto simp add: create_supervisor_agent_def Let_def emit_def)
  from sup show "tools supervisor = []" by simp
  from sup show "list_all is_AgentCapability (capabilities supervisor)"
    by (simp add: capabilities_def)
  from sup s' j show "\<exists>jira. jira_agent_global s' = Some jira \<and>
         capabilities supervisor = [AgentCapability jira]"
    by (simp add: capabilities_def)
next
  show "list_all (\<lambda>a. list_all is_AgentCapability (capabilities a))
     (run_agents (snd (program dotenv os_environ w)))"
    by (simp add: program_eq capabilities_def supervisor_of_def split: outcome.splits)
qed

text \<open>
  C6, witness: in the example where everything works the supervisor has the Jira agent as
  its one capability, and it is the one agent that is run.
\<close>

theorem supervisor_holds_only_agents_witness:
  "capabilities (supervisor_of client_github [jira_get_issue, jira_search]) =
     [AgentCapability (jira_agent_of client_github [jira_get_issue, jira_search])] \<and>
   tools (supervisor_of client_github [jira_get_issue, jira_search]) = [] \<and>
   list_all is_AgentCapability
     (capabilities (supervisor_of client_github [jira_get_issue, jira_search])) \<and>
   run_agents (snd (program Map.empty env_github world_ok)) =
     [supervisor_of client_github [jira_get_issue, jira_search]] \<and>
   list_all (\<lambda>a. list_all is_AgentCapability (capabilities a))
     (run_agents (snd (program Map.empty env_github world_ok)))"
proof -
  note t = supervisor_holds_only_agents [of world_ok "initial_state client_github"
      "supervisor_of client_github [jira_get_issue, jira_search]" _ Map.empty env_github]
  from t create_supervisor_agent_world_ok
  have "tools (supervisor_of client_github [jira_get_issue, jira_search]) = []"
    and "list_all is_AgentCapability
     (capabilities (supervisor_of client_github [jira_get_issue, jira_search]))"
    and "list_all (\<lambda>a. list_all is_AgentCapability (capabilities a))
     (run_agents (snd (program Map.empty env_github world_ok)))"
    by blast+
  moreover have "capabilities (supervisor_of client_github [jira_get_issue, jira_search]) =
     [AgentCapability (jira_agent_of client_github [jira_get_issue, jira_search])]"
    by (simp add: capabilities_def supervisor_of_def)
  moreover have "run_agents (snd (program Map.empty env_github world_ok)) =
     [supervisor_of client_github [jira_get_issue, jira_search]]"
    by (simp add: program_world_ok)
  ultimately show ?thesis by blast
qed

subsection \<open>The release of the connection\<close>

text \<open>No process ever releases the connection of its MCP client.\<close>

lemma program_never_closes: "\<not> list_ex is_Close (snd (program dotenv os_environ w))"
  by (simp add: program_eq split: outcome.splits)

text \<open>
  Claim C7 asks that on every exit path the connection established during discovery is
  released by a teardown operation before the process ends. The script keeps the client
  in \<open>_mcp_client\<close>, under the comment "Global references for cleanup", and never uses
  it: \<open>main\<close> has no \<open>try\<close>/\<open>finally\<close> and nothing calls a release. Here are the two
  exit paths after a successful discovery, the run returning and the run raising: the
  trace has the connection attempt and no \<open>Close\<close>.
\<close>

theorem connection_is_never_released:
  "program Map.empty env_github world_ok =
     (Returns (),
      [GetTools 0 mcp_config,
       LogInfo ''Discovered 2 MCP Jira tools'',
       NewChatAgent (jira_agent_of client_github [jira_get_issue, jira_search]),
       NewChatAgent (supervisor_of client_github [jira_get_issue, jira_search]),
       Print (ticket_emoji @ '' Retrieving Jira ticket: '' @ user_ticket_number),
       Run (supervisor_of client_github [jira_get_issue, jira_search]) request,
       Print ''AUT-633: Fix bug (Open)'']) \<and>
   \<not> list_ex is_Close (snd (program Map.empty env_github world_ok)) \<and>
   program Map.empty env_github world_backend_error =
     (Raises BackendError,
      [GetTools 0 mcp_config,
       LogInfo ''Discovered 2 MCP Jira tools'',
       NewChatAgent (jira_agent_of client_github [jira_get_issue, jira_search]),
       NewChatAgent (supervisor_of client_github [jira_get_issue, jira_search]),
       Print (ticket_emoji @ '' Retrieving Jira ticket: '' @ user_ticket_number),
       Run (supervisor_of client_github [jira_get_issue, jira_search]) request]) \<and>
   \<not> list_ex is_Close (snd (program Map.empty env_github world_backend_error))"
  by (simp add: program_eq client_env_github client_env_github_backend_error world_ok_fields
      world_backend_error_fields stdout_env_github str_nat_2)

subsection \<open>The process and its exit code\<close>

lemma client_env_jira: "client world_ok (load_dotenv Map.empty env_jira) = Returns client_github"
  by (simp add: client_def OpenAIChatClient_def world_ok_def load_dotenv_def env_jira_def
      getenv_def client_github_def)

lemma client_env_ascii: "client world_ok (load_dotenv Map.empty env_ascii) = Returns client_github"
  by (simp add: client_def OpenAIChatClient_def world_ok_def load_dotenv_def env_ascii_def
      getenv_def client_github_def)

text \<open>
  Claim C9 asks that the entry point takes no arguments, reads all configuration from the
  environment, and ends with exit code 0 when the request succeeds and with a non-zero
  code when an error reaches the top. The process has no argument. Its exit code is 0
  when the client is built, discovery returns, the run returns and both prints are
  written. Nothing is caught: an exception of the construction of the client, of
  discovery, of a print or of the run reaches the top, and the exit code is then 1. The
  configuration of the model backend is read from the environment, with the \<open>.env\<close> file
  loaded over it. The connection parameters of the tool source are not: every discovery
  of the process is made with the literal \<open>mcp_config\<close>.
\<close>

theorem exit_code_of_program:
  "(client w (load_dotenv dotenv os_environ) = Returns c \<and>
    mcp_get_tools w 0 mcp_config = Returns ts \<and>
    stdout_write w os_environ
      (ticket_emoji @ '' Retrieving Jira ticket: '' @ user_ticket_number) = Returns () \<and>
    agent_run w (supervisor_of c ts) request = Returns t \<and>
    stdout_write w os_environ t = Returns () \<longrightarrow>
      fst (program dotenv os_environ w) = Returns () \<and>
      exit_code (fst (program dotenv os_environ w)) = Some 0) \<and>
   (fst (program dotenv os_environ w) = Raises err \<longrightarrow>
      exit_code (fst (program dotenv os_environ w)) = Some 1) \<and>
   (client w (load_dotenv dotenv os_environ) = Raises err \<longrightarrow>
      fst (program dotenv os_environ w) = Raises err) \<and>
   (client w (load_dotenv dotenv os_environ) = Returns c \<and>
    mcp_get_tools w 0 mcp_config = Raises err \<longrightarrow>
      fst (program dotenv os_environ w) = Raises err) \<and>
   (client w (load_dotenv dotenv os_environ) = Returns c \<and>
    mcp_get_tools w 0 mcp_config = Returns ts \<and>
    stdout_write w os_environ
      (ticket_emoji @ '' Retrieving Jira ticket: '' @ user_ticket_number) = Raises err \<longrightarrow>
      fst (program dotenv os_environ w) = Raises err) \<and>
   (client w (load_dotenv dotenv os_environ) = Returns c \<and>
    mcp_get_tools w 0 mcp_config = Returns ts \<and>
    stdout_write w os_environ
      (ticket_emoji @ '' Retrieving Jira ticket: '' @ user_ticket_number) = Returns () \<and>
    agent_run w (supervisor_of c ts) request = Raises err \<longrightarrow>
      fst (program dotenv os_environ w) = Raises err) \<and>
   (client w (load_dotenv dotenv os_environ) = Returns c \<and>
    mcp_get_tools w 0 mcp_config = Returns ts \<and>
    stdout_write w os_environ
      (ticket_emoji @ '' Retrieving Jira ticket: '' @ user_ticket_number) = Returns () \<and>
    agent_run w (supervisor_of c ts) request = Returns t \<and>
    stdout_write w os_environ t = Raises err \<longrightarrow>
      fst (program dotenv os_environ w) = Raises err) \<and>
   filter is_GetTools (snd (program dotenv os_environ w)) \<in> {[], [GetTools 0 mcp_config]}"
proof (intro conjI impI)
  show "filter is_GetTools (snd (program dotenv os_environ w)) \<in> {[], [GetTools 0 mcp_config]}"
    by (simp add: program_eq split: outcome.splits)
qed (simp_all add: program_eq)

text \<open>
  C9, witness: exit code 0 when everything works; 1 when the run raises; 1 when the
  process is started with \<open>PYTHONIOENCODING=ascii\<close>, where the first print raises before
  the run; 1 when the module body raises for want of \<open>GITHUB_TOKEN\<close>.
\<close>

theorem exit_code_of_program_witness:
  "exit_code (fst (program Map.empty env_github world_ok)) = Some 0 \<and>
   fst (program Map.empty env_github world_backend_error) = Raises BackendError \<and>
   exit_code (fst (program Map.empty env_github world_backend_error)) = Some 1 \<and>
   program Map.empty env_ascii world_ok =
     (Raises UnicodeEncodeError,
      [GetTools 0 mcp_config,
       LogInfo ''Discovered 2 MCP Jira tools'',
       NewChatAgent (jira_agent_of client_github [jira_get_issue, jira_search]),
       NewChatAgent (supervisor_of client_github [jira_get_issue, jira_search]),
       Print (ticket_emoji @ '' Retrieving Jira ticket: '' @ user_ticket_number)]) \<and>
   exit_code (fst (program Map.empty env_ascii world_ok)) = Some 1 \<and>
   exit_code (fst (program Map.empty Map.empty world_ok)) = Some 1"
proof -
  have c: "client world_ok (load_dotenv Map.empty env_github) = Returns client_github"
    by (rule client_env_github)
  have d: "mcp_get_tools world_ok 0 mcp_config = Returns [jira_get_issue, jira_search]"
    by (simp add: world_ok_def)
  have p1: "stdout_write world_ok env_github
      (ticket_emoji @ '' Retrieving Jira ticket: '' @ user_ticket_number) = Returns ()"
    by (simp add: world_ok_fields stdout_env_github)
  have r: "agent_run world_ok (supervisor_of client_github [jira_get_issue, jira_search]) request =
      Returns ''AUT-633: Fix bug (Open)''"
    by (simp add: world_ok_def)
  have p2: "stdout_write world_ok env_github ''AUT-633: Fix bug (Open)'' = Returns ()"
    by (simp add: world_ok_fields stdout_env_github)
  from exit_code_of_program [where w = world_ok and dotenv = Map.empty
      and os_environ = env_github and c = client_github
      and ts = "[jira_get_issue, jira_search]" and t = "''AUT-633: Fix bug (Open)''"]
    c d p1 r p2
  have 1: "exit_code (fst (program Map.empty env_github world_ok)) = Some 0"
    by blast
  have 2: "fst (program Map.empty env_github world_backend_error) = Raises BackendError"
    by (simp add: program_eq client_env_github_backend_error world_backend_error_fields
        stdout_env_github)
  have 3: "program Map.empty env_ascii world_ok =
     (Raises UnicodeEncodeError,
      [GetTools 0 mcp_config,
       LogInfo ''Discovered 2 MCP Jira tools'',
       NewChatAgent (jira_agent_of client_github [jira_get_issue, jira_search]),
       NewChatAgent (supervisor_of client_github [jira_get_issue, jira_search]),
       Print (ticket_emoji @ '' Retrieving Jira ticket: '' @ user_ticket_number)])"
    by (simp add: program_eq client_env_ascii world_ok_fields stdout_env_ascii_emoji str_nat_2)
  have 4: "fst (program Map.empty Map.empty world_ok) = Raises (KeyError ''GITHUB_TOKEN'')"
    by (simp add: program_eq client_def load_dotenv_def getenv_def)
  from 1 2 3 4 show ?thesis by simp
qed

text \<open>
  C9, counterexample: an environment that sets \<open>JIRA_URL\<close>, \<open>JIRA_USERNAME\<close> and
  \<open>JIRA_API_TOKEN\<close>. The process connects with the literal values of the source, the
  empty URL among them, and does exactly what it does without the three variables.
\<close>

theorem jira_environment_counterexample:
  "env_jira ''JIRA_URL'' = Some ''https://jira.example.com'' \<and>
   env_jira ''JIRA_USERNAME'' = Some ''alice'' \<and>
   env_jira ''JIRA_API_TOKEN'' = Some ''secret'' \<and>
   filter is_GetTools (snd (program Map.empty env_jira world_ok)) = [GetTools 0 mcp_config] \<and>
   tool_source_parameter mcp_config ''JIRA_URL'' = Some '''' \<and>
   tool_source_parameter mcp_config ''JIRA_USERNAME'' = Some ''XXXXXX'' \<and>
   tool_source_parameter mcp_config ''JIRA_API_TOKEN'' = Some ''XXXXX'' \<and>
   program Map.empty env_jira world_ok = program Map.empty env_github world_ok"
proof -
  have "filter is_GetTools (snd (program Map.empty env_jira world_ok)) = [GetTools 0 mcp_config]"
    by (simp add: program_eq client_env_jira world_ok_fields stdout_env_jira)
  moreover have "program Map.empty env_jira world_ok = program Map.empty env_github world_ok"
    by (simp add: program_eq client_env_jira client_env_github world_ok_fields
        stdout_env_jira stdout_env_github)
  moreover have "tool_source_parameter mcp_config ''JIRA_URL'' = Some ''''"
    "tool_source_parameter mcp_config ''JIRA_USERNAME'' = Some ''XXXXXX''"
    "tool_source_parameter mcp_config ''JIRA_API_TOKEN'' = Some ''XXXXX''"
    by (simp_all add: tool_source_parameter_def mcp_config_def)
  ultimately show ?thesis by (simp add: env_jira_def)
qed

end
